theory Spec2Isabelle
  imports Main "HOL-Library.Sublist"
begin

section \<open>Data of the program\<close>

text \<open>
  The program is one Streamlit script, \<^verbatim>\<open>app.py\<close>, executed from top to bottom on every
  user interaction. Python strings are modelled by their UTF-8 bytes (a \<open>char list\<close>), so
  the emoji of the source's literals appear as byte sequences; concatenation is the same on
  both sides. The page configuration and the style sheet (lines 7 to 17) are constant
  output and are left out.
\<close>

text \<open>The exceptions that can arise: a missing dictionary key, an unbound variable, and any
  exception raised by the \<^verbatim>\<open>google.generativeai\<close> library (carrying its message).\<close>

datatype exn = KeyError string | NameError string | ApiError string

definition sq :: char where
  "sq = CHR 0x27"

text \<open>Python's \<^verbatim>\<open>str(e)\<close>.\<close>

fun str :: "exn \<Rightarrow> string" where
  "str (KeyError k) = [sq] @ k @ [sq]"
| "str (NameError v) = ''name '' @ [sq] @ v @ [sq] @ '' is not defined''"
| "str (ApiError m) = m"

text \<open>Python's \<^verbatim>\<open>str(n)\<close> for the non-negative integer that \<^verbatim>\<open>len\<close> returns.\<close>

fun str_nat :: "nat \<Rightarrow> string" where
  "str_nat n = (if n < 10 then [char_of (48 + n)]
                else str_nat (n div 10) @ [char_of (48 + n mod 10)])"

declare str_nat.simps [simp del]

text \<open>A \<^verbatim>\<open>genai.GenerativeModel\<close> object: the model name and the system instruction it was
  built with. The credential is not stored in it: \<^verbatim>\<open>genai.configure\<close> keeps the key in the
  library's global configuration (\<open>api_key\<close> of the world below).\<close>

record model =
  model_name :: string
  system_instruction :: "string option"

text \<open>The parts of a request: the prompt text, and one
  \<^verbatim>\<open>{"mime_type": ..., "data": ...}\<close> dictionary per uploaded file.\<close>

datatype part = Text string | Blob string string

text \<open>An entry of \<^verbatim>\<open>st.session_state.doc_messages\<close>: \<^verbatim>\<open>{"role": ..., "content": ...}\<close>.\<close>

record msg =
  role :: string
  content :: string

text \<open>What a run does to the outside: the calls to \<^verbatim>\<open>genai.configure\<close>, the requests
  sent with \<^verbatim>\<open>generate_content\<close> (with the key configured at that moment), and the
  Streamlit output calls.\<close>

datatype event =
    Configure string
  | Generate "string option" model "part list"
  | StHeader string
  | StSuccess string
  | StCaption string
  | StWarning string
  | StInfo string
  | StTitle string
  | StSubheader string
  | StChatMessage string
  | StSpinner string
  | StMarkdown string
  | StError string

text \<open>
  The state a run reads and writes: \<^verbatim>\<open>st.secrets\<close> (a table of sections, each a table of
  key lists), the key held by the library's global configuration, the two lists of
  \<^verbatim>\<open>st.session_state\<close>, and the events so far. A session-state list that has not been
  created yet is the empty list: lines 70 and 107 create it empty before any other use.
\<close>

record world =
  secrets :: "string \<rightharpoonup> (string \<rightharpoonup> string list)"
  api_key :: "string option"
  doc_messages :: "msg list"
  debate_history :: "string list"
  trace :: "event list"

text \<open>
  The library is a parameter. \<open>construct_error\<close> tells which exception, if any, is raised
  by configuring a key and building a \<^verbatim>\<open>GenerativeModel\<close> under it (lines 31 to 36, and
  lines 86 and 87), for a model name and a system instruction; \<open>generate_text\<close> is
  \<^verbatim>\<open>model.generate_content(c).text\<close> under the configured key: the text, or the exception
  raised by the call or by reading \<^verbatim>\<open>.text\<close>. Only exceptions that
  \<^verbatim>\<open>except Exception\<close> catches are considered.
\<close>

record genai =
  construct_error :: "string option \<Rightarrow> string \<Rightarrow> string option \<Rightarrow> exn option"
  generate_text :: "string option \<Rightarrow> model \<Rightarrow> part list \<Rightarrow> exn + string"

text \<open>The widgets of one run, by the values they return.\<close>

datatype mode = DocumentResearch | DebateArena

record uploaded_file =
  file_type :: string
  file_value :: string

record widgets =
  text_input :: string
  radio :: mode
  file_uploader :: "uploaded_file list"
  chat_input :: "string option"

section \<open>Library calls\<close>

definition emit :: "event \<Rightarrow> world \<Rightarrow> world" where
  "emit e st = st\<lparr>trace := trace st @ [e]\<rparr>"

text \<open>\<^verbatim>\<open>genai.configure(api_key=key)\<close> stores the key; an exception of the construction is
  placed after it, in \<open>GenerativeModel\<close>.\<close>

definition configure :: "string \<Rightarrow> world \<Rightarrow> world" where
  "configure key st = emit (Configure key) (st\<lparr>api_key := Some key\<rparr>)"

definition GenerativeModel :: "genai \<Rightarrow> string \<Rightarrow> string option \<Rightarrow> world \<Rightarrow> exn + model" where
  "GenerativeModel lib name instruction st =
     (case construct_error lib (api_key st) name instruction of
        Some e \<Rightarrow> Inl e
      | None \<Rightarrow> Inr \<lparr>model_name = name, system_instruction = instruction\<rparr>)"

definition generate_content :: "genai \<Rightarrow> model \<Rightarrow> part list \<Rightarrow> world \<Rightarrow> (exn + string) \<times> world" where
  "generate_content lib m c st =
     (generate_text lib (api_key st) m c, emit (Generate (api_key st) m c) st)"

section \<open>The key rotator\<close>

definition exhausted_message :: string where
  "exhausted_message =
     [CHR 0xF0, CHR 0x9F, CHR 0x92, CHR 0x80] @ '' ALL KEYS EXHAUSTED. Add more accounts to Secrets.''"

text \<open>The loop of lines 29 to 39: the first key whose model is built without an exception
  ends the loop; any exception moves on to the next key.\<close>

fun try_keys :: "genai \<Rightarrow> string \<Rightarrow> string list \<Rightarrow> world \<Rightarrow> model option \<times> world" where
  "try_keys lib instruction [] st = (None, st)"
| "try_keys lib instruction (key # keys) st =
     (let st' = configure key st in
      case GenerativeModel lib ''gemini-1.5-flash'' (Some instruction) st' of
        Inr m \<Rightarrow> (Some m, st')
      | Inl e \<Rightarrow> try_keys lib instruction keys st')"

definition get_working_model :: "genai \<Rightarrow> string \<Rightarrow> world \<Rightarrow> model option \<times> world" where
  "get_working_model lib instruction st =
     (case secrets st ''gemini'' of
        None \<Rightarrow> (None, st)
      | Some section \<Rightarrow>
          (case section ''keys'' of
             None \<Rightarrow> (None, st)
           | Some keys \<Rightarrow>
               (case try_keys lib instruction keys st of
                  (Some m, st') \<Rightarrow> (Some m, st')
                | (None, st') \<Rightarrow> (None, emit (StError exhausted_message) st'))))"

section \<open>The sidebar\<close>

definition header_text :: string where
  "header_text = [CHR 0xF0, CHR 0x9F, CHR 0xA7, CHR 0xA0] @ '' Control Panel''"

definition vault_active_text :: "nat \<Rightarrow> string" where
  "vault_active_text n =
     [CHR 0xF0, CHR 0x9F, CHR 0x94, CHR 0x90] @ '' Vault Active: '' @ str_nat n @ '' Keys Loaded''"

definition no_vault_text :: string where
  "no_vault_text =
     [CHR 0xE2, CHR 0x9A, CHR 0xA0, CHR 0xEF, CHR 0xB8, CHR 0x8F]
       @ '' No Vault Found. Add keys in App Settings -> Secrets.''"

text \<open>
  Lines 49 to 54. The test is only \<^verbatim>\<open>"gemini" in st.secrets\<close>; the subscript
  \<^verbatim>\<open>st.secrets['gemini']['keys']\<close> of line 50 raises \<^verbatim>\<open>KeyError\<close> when the section has
  no \<^verbatim>\<open>keys\<close> entry, outside any \<^verbatim>\<open>try\<close>. The result is the variable
  \<^verbatim>\<open>manual_key\<close>: bound (to the text typed) only on the branch without a section. The
  script's namespace is fresh on every run, so a binding of an earlier run is not seen.
\<close>

definition vault_panel :: "widgets \<Rightarrow> world \<Rightarrow> (exn + string option) \<times> world" where
  "vault_panel w st =
     (case secrets st ''gemini'' of
        Some section \<Rightarrow>
          (case section ''keys'' of
             None \<Rightarrow> (Inl (KeyError ''keys''), st)
           | Some keys \<Rightarrow>
               (Inr None,
                emit (StCaption ''Auto-Rotation Enabled'')
                  (emit (StSuccess (vault_active_text (length keys))) st)))
      | None \<Rightarrow> (Inr (Some (text_input w)), emit (StWarning no_vault_text) st))"

text \<open>Lines 56 to 63: the mode, and \<^verbatim>\<open>uploaded_files\<close>.\<close>

definition mode_panel :: "widgets \<Rightarrow> world \<Rightarrow> (mode \<times> uploaded_file list) \<times> world" where
  "mode_panel w st =
     (if radio w = DocumentResearch
      then ((radio w, file_uploader w), emit (StInfo ''Upload books and solve equations.'') st)
      else ((radio w, []), emit (StInfo ''Two AI Personas will fight over your question.'') st))"

section \<open>Mode 1: document research\<close>

text \<open>Lines 72 and 73.\<close>

definition render_doc_messages :: "world \<Rightarrow> world" where
  "render_doc_messages st =
     foldl (\<lambda>s m. emit (StMarkdown (content m)) (emit (StChatMessage (role m)) s))
       st (doc_messages st)"

definition append_doc_message :: "msg \<Rightarrow> world \<Rightarrow> world" where
  "append_doc_message m st = st\<lparr>doc_messages := doc_messages st @ [m]\<rparr>"

text \<open>Lines 85 to 87: no \<^verbatim>\<open>try\<close> surrounds the construction, and no system instruction is
  passed.\<close>

definition manual_key_fallback ::
  "genai \<Rightarrow> string option \<Rightarrow> model option \<Rightarrow> world \<Rightarrow> (exn + model option) \<times> world" where
  "manual_key_fallback lib manual_key m st =
     (case m of
        Some m' \<Rightarrow> (Inr (Some m'), st)
      | None \<Rightarrow>
          (case manual_key of
             None \<Rightarrow> (Inr None, st)
           | Some k \<Rightarrow>
               if k = [] then (Inr None, st)
               else (let st' = configure k st in
                     case GenerativeModel lib ''gemini-1.5-flash'' None st' of
                       Inl e \<Rightarrow> (Inl e, st')
                     | Inr m' \<Rightarrow> (Inr (Some m'), st'))))"

text \<open>Lines 92 to 96.\<close>

definition build_content :: "string \<Rightarrow> uploaded_file list \<Rightarrow> part list" where
  "build_content prompt uploaded_files =
     Text prompt # map (\<lambda>f. Blob (file_type f) (file_value f)) uploaded_files"

text \<open>Lines 89 to 102.\<close>

definition ask_model :: "genai \<Rightarrow> model option \<Rightarrow> string \<Rightarrow> uploaded_file list \<Rightarrow> world \<Rightarrow> world" where
  "ask_model lib m prompt uploaded_files st =
     (case m of
        None \<Rightarrow> st
      | Some m' \<Rightarrow>
          (case generate_content lib m' (build_content prompt uploaded_files) st of
             (Inr response_text, st') \<Rightarrow>
               append_doc_message \<lparr>role = ''assistant'', content = response_text\<rparr>
                 (emit (StMarkdown response_text) st')
           | (Inl e, st') \<Rightarrow> emit (StError (''Error: '' @ str e)) st'))"

definition research_directive :: string where
  "research_directive = ''You are a PhD Researcher. Use LaTeX for math.''"

text \<open>Lines 76 to 80: the question enters the transcript before anything else happens.\<close>

definition show_prompt :: "string \<Rightarrow> world \<Rightarrow> world" where
  "show_prompt prompt st =
     (let st1 = append_doc_message \<lparr>role = ''user'', content = prompt\<rparr> st;
          st2 = emit (StMarkdown prompt) (emit (StChatMessage ''user'') st1)
      in emit (StSpinner ''Analyzing documents...'') (emit (StChatMessage ''assistant'') st2))"

text \<open>Lines 82 to 87: the handle of the request, from the vault or else from the manual
  key.\<close>

definition acquire_model :: "genai \<Rightarrow> string option \<Rightarrow> world \<Rightarrow> (exn + model option) \<times> world" where
  "acquire_model lib manual_key st =
     (case get_working_model lib research_directive st of
        (m, st') \<Rightarrow> manual_key_fallback lib manual_key m st')"

text \<open>Lines 75 to 102, for a submitted prompt. The first component of the result is the
  exception that leaves the script, if any.\<close>

definition submit_prompt ::
  "genai \<Rightarrow> string option \<Rightarrow> uploaded_file list \<Rightarrow> string \<Rightarrow> world \<Rightarrow> exn option \<times> world" where
  "submit_prompt lib manual_key uploaded_files prompt st =
     (case acquire_model lib manual_key (show_prompt prompt st) of
        (Inl e, st') \<Rightarrow> (Some e, st')
      | (Inr m, st') \<Rightarrow> (None, ask_model lib m prompt uploaded_files st'))"

text \<open>Lines 69 to 102. \<^verbatim>\<open>if prompt := st.chat_input(...)\<close> skips \<^verbatim>\<open>None\<close> and the empty
  string.\<close>

definition research_mode ::
  "genai \<Rightarrow> string option \<Rightarrow> uploaded_file list \<Rightarrow> string option \<Rightarrow> world \<Rightarrow> exn option \<times> world" where
  "research_mode lib manual_key uploaded_files input st =
     (let st1 = render_doc_messages st in
      case input of
        None \<Rightarrow> (None, st1)
      | Some prompt \<Rightarrow>
          if prompt = [] then (None, st1)
          else submit_prompt lib manual_key uploaded_files prompt st1)"

section \<open>Mode 2: the debate arena\<close>

definition subheader_text :: string where
  "subheader_text =
     [CHR 0xE2, CHR 0x9A, CHR 0x94, CHR 0xEF, CHR 0xB8, CHR 0x8F]
       @ '' The Debate Arena: Theory vs. Application''"

definition theorist_directive :: string where
  "theorist_directive = ''You are a Formal Theorist. Use LaTeX. Be stubborn.''"

definition applied_directive :: string where
  "applied_directive = ''You are an Applied Scientist. Critique the Theorist.''"

definition verdict_directive :: string where
  "verdict_directive = ''You are Pavel, Head Researcher. Synthesize.''"

definition you_entry :: "string \<Rightarrow> string" where
  "you_entry topic = ''**You:** '' @ topic"

definition html_1 :: "string \<Rightarrow> string" where
  "html_1 resp_1 =
     ''<div class='' @ [sq] @ ''theorist'' @ [sq] @ ''><b>''
       @ [CHR 0xF0, CHR 0x9F, CHR 0x94, CHR 0xB5] @ '' Theorist:</b><br>'' @ resp_1 @ ''</div>''"

definition html_2 :: "string \<Rightarrow> string" where
  "html_2 resp_2 =
     ''<div class='' @ [sq] @ ''applied'' @ [sq] @ ''><b>''
       @ [CHR 0xF0, CHR 0x9F, CHR 0x9F, CHR 0xA2] @ '' Applied:</b><br>'' @ resp_2 @ ''</div>''"

definition html_3 :: "string \<Rightarrow> string" where
  "html_3 resp_3 =
     ''<div class='' @ [sq] @ ''verdict'' @ [sq] @ ''><b>''
       @ [CHR 0xE2, CHR 0x9A, CHR 0x96, CHR 0xEF, CHR 0xB8, CHR 0x8F]
       @ '' FINAL VERDICT:</b><br>'' @ resp_3 @ ''</div>''"

text \<open>
  The three prompts (lines 121, 133 and 144). \<^verbatim>\<open>resp_1\<close> and \<^verbatim>\<open>resp_2\<close> are bound only
  when their step appended its entry; formatting a prompt with an unbound one raises
  \<^verbatim>\<open>NameError\<close>, inside the \<^verbatim>\<open>try\<close> of the step.
\<close>

definition theorist_prompt :: "string \<Rightarrow> string" where
  "theorist_prompt topic = ''Theoretical view: '' @ topic"

definition applied_prompt :: "string \<Rightarrow> string option \<Rightarrow> exn + string" where
  "applied_prompt topic resp_1 =
     (case resp_1 of
        None \<Rightarrow> Inl (NameError ''resp_1'')
      | Some r1 \<Rightarrow> Inr (''Practical view: '' @ topic @ ''. Critique: '' @ r1))"

definition verdict_prompt :: "string option \<Rightarrow> string option \<Rightarrow> exn + string" where
  "verdict_prompt resp_1 resp_2 =
     (case resp_1 of
        None \<Rightarrow> Inl (NameError ''resp_1'')
      | Some r1 \<Rightarrow>
          (case resp_2 of
             None \<Rightarrow> Inl (NameError ''resp_2'')
           | Some r2 \<Rightarrow> Inr (''Theorist: '' @ r1 @ ''. Applied: '' @ r2 @ ''. Verdict?'')))"

definition append_debate_history :: "string \<Rightarrow> world \<Rightarrow> world" where
  "append_debate_history item st = st\<lparr>debate_history := debate_history st @ [item]\<rparr>"

text \<open>Lines 117 to 125; the result is \<^verbatim>\<open>resp_1\<close>, if bound. A prompt that is a plain string is
  the one-part request.\<close>

definition theorist :: "genai \<Rightarrow> string \<Rightarrow> world \<Rightarrow> string option \<times> world" where
  "theorist lib topic st =
     (case get_working_model lib theorist_directive
             (emit (StSpinner ''Theorist is deriving axioms...'') st) of
        (None, st1) \<Rightarrow> (None, st1)
      | (Some m, st1) \<Rightarrow>
          (case generate_content lib m [Text (theorist_prompt topic)] st1 of
             (Inl e, st2) \<Rightarrow> (None, emit (StError (str e)) st2)
           | (Inr resp_1, st2) \<Rightarrow>
               (Some resp_1,
                append_debate_history (html_1 resp_1) (emit (StMarkdown (html_1 resp_1)) st2))))"

text \<open>Lines 128 to 137; the result is \<^verbatim>\<open>resp_2\<close>, if bound.\<close>

definition applied :: "genai \<Rightarrow> string \<Rightarrow> string option \<Rightarrow> world \<Rightarrow> string option \<times> world" where
  "applied lib topic resp_1 st =
     (case get_working_model lib applied_directive
             (emit (StSpinner ''Applied Scientist is simulating...'') st) of
        (None, st1) \<Rightarrow> (None, st1)
      | (Some m, st1) \<Rightarrow>
          (case applied_prompt topic resp_1 of
             Inl e \<Rightarrow> (None, emit (StError (str e)) st1)
           | Inr p \<Rightarrow>
               (case generate_content lib m [Text p] st1 of
                  (Inl e, st2) \<Rightarrow> (None, emit (StError (str e)) st2)
                | (Inr resp_2, st2) \<Rightarrow>
                    (Some resp_2,
                     append_debate_history (html_2 resp_2)
                       (emit (StMarkdown (html_2 resp_2)) st2)))))"

text \<open>Lines 140 to 148.\<close>

definition verdict :: "genai \<Rightarrow> string option \<Rightarrow> string option \<Rightarrow> world \<Rightarrow> world" where
  "verdict lib resp_1 resp_2 st =
     (case get_working_model lib verdict_directive
             (emit (StSpinner ''Pavel is rendering verdict...'') st) of
        (None, st1) \<Rightarrow> st1
      | (Some m, st1) \<Rightarrow>
          (case verdict_prompt resp_1 resp_2 of
             Inl e \<Rightarrow> emit (StError (str e)) st1
           | Inr p \<Rightarrow>
               (case generate_content lib m [Text p] st1 of
                  (Inl e, st2) \<Rightarrow> emit (StError (str e)) st2
                | (Inr resp_3, st2) \<Rightarrow>
                    append_debate_history (html_3 resp_3)
                      (emit (StMarkdown (html_3 resp_3)) st2))))"

text \<open>Lines 113 and 114.\<close>

definition show_topic :: "string \<Rightarrow> world \<Rightarrow> world" where
  "show_topic topic st =
     append_debate_history (you_entry topic) (emit (StMarkdown (you_entry topic)) st)"

text \<open>Lines 112 to 148, for a submitted topic: the three steps run one after the other,
  whatever the earlier ones did.\<close>

definition submit_topic :: "genai \<Rightarrow> string \<Rightarrow> world \<Rightarrow> world" where
  "submit_topic lib topic st =
     (case theorist lib topic (show_topic topic st) of
        (resp_1, st1) \<Rightarrow>
          (case applied lib topic resp_1 st1 of
             (resp_2, st2) \<Rightarrow> verdict lib resp_1 resp_2 st2))"

text \<open>Lines 105 to 148.\<close>

definition debate_mode :: "genai \<Rightarrow> string option \<Rightarrow> world \<Rightarrow> exn option \<times> world" where
  "debate_mode lib input st =
     (let st1 = emit (StSubheader subheader_text) st;
          st2 = foldl (\<lambda>s item. emit (StMarkdown item) s) st1 (debate_history st1)
      in case input of
           None \<Rightarrow> (None, st2)
         | Some topic \<Rightarrow>
             if topic = [] then (None, st2) else (None, submit_topic lib topic st2))"

section \<open>One run of the script, and a session\<close>

definition title_text :: string where
  "title_text = [CHR 0xF0, CHR 0x9F, CHR 0x8E, CHR 0x93] @ '' Pavel AI: PhD Research Station''"

text \<open>Lines 45 to 148. The first component is the exception that ends the run, if one
  leaves the script; the world holds what the run did up to there.\<close>

definition run_script :: "genai \<Rightarrow> widgets \<Rightarrow> world \<Rightarrow> exn option \<times> world" where
  "run_script lib w st =
     (case vault_panel w (emit (StHeader header_text) st) of
        (Inl e, st1) \<Rightarrow> (Some e, st1)
      | (Inr manual_key, st1) \<Rightarrow>
          (case mode_panel w st1 of
             ((mode, uploaded_files), st2) \<Rightarrow>
               (let st3 = emit (StTitle title_text) st2 in
                if mode = DocumentResearch
                then research_mode lib manual_key uploaded_files (chat_input w) st3
                else debate_mode lib (chat_input w) st3)))"

text \<open>A session is a sequence of user actions; each one runs the script on the world the
  previous run left, also after a run that ended with an exception. The remote library
  may answer differently in each run.\<close>

fun run_session :: "(genai \<times> widgets) list \<Rightarrow> world \<Rightarrow> world" where
  "run_session [] st = st"
| "run_session ((lib, w) # actions) st = run_session actions (snd (run_script lib w st))"

section \<open>Notions used by the properties\<close>

text \<open>A key fails construction under an instruction when the \<^verbatim>\<open>try\<close> body of lines 31 to
  36 raises for it.\<close>

definition construction_fails :: "genai \<Rightarrow> string \<Rightarrow> string \<Rightarrow> bool" where
  "construction_fails lib instruction key \<longleftrightarrow>
     construct_error lib (Some key) ''gemini-1.5-flash'' (Some instruction) \<noteq> None"

text \<open>The configured pool, as the test of line 22 sees it: absent when the section or its
  \<^verbatim>\<open>keys\<close> entry is missing.\<close>

definition pool :: "world \<Rightarrow> string list option" where
  "pool st = (case secrets st ''gemini'' of None \<Rightarrow> None | Some section \<Rightarrow> section ''keys'')"

text \<open>The handle that lines 33 to 36 build.\<close>

definition pooled_model :: "string \<Rightarrow> model" where
  "pooled_model instruction =
     \<lparr>model_name = ''gemini-1.5-flash'', system_instruction = Some instruction\<rparr>"

text \<open>A session's transcripts and secrets only grow: used as the invariant of a run.\<close>

definition grows :: "world \<Rightarrow> world \<Rightarrow> bool" where
  "grows st st' \<longleftrightarrow>
     secrets st' = secrets st
     \<and> prefix (doc_messages st) (doc_messages st')
     \<and> prefix (debate_history st) (debate_history st')"

text \<open>The first key of a list that constructs under an instruction, and the keys that fail
  before it.\<close>

definition first_working :: "genai \<Rightarrow> string \<Rightarrow> string list \<Rightarrow> string option" where
  "first_working lib instruction keys = find (\<lambda>k. \<not> construction_fails lib instruction k) keys"

definition failed_first :: "genai \<Rightarrow> string \<Rightarrow> string list \<Rightarrow> string list" where
  "failed_first lib instruction keys = takeWhile (construction_fails lib instruction) keys"

text \<open>The requests a trace holds, in order.\<close>

fun is_request :: "event \<Rightarrow> bool" where
  "is_request (Generate k m c) = True"
| "is_request e = False"

definition requests :: "event list \<Rightarrow> event list" where
  "requests evs = filter is_request evs"

text \<open>The keys passed to \<^verbatim>\<open>genai.configure\<close> in a trace, in order.\<close>

fun configured :: "event list \<Rightarrow> string list" where
  "configured [] = []"
| "configured (Configure k # evs) = k # configured evs"
| "configured (e # evs) = configured evs"

subsection \<open>Concrete inputs\<close>

text \<open>A library in which the key \<^verbatim>\<open>bad-key\<close> fails construction and every request is
  answered.\<close>

definition example_lib :: genai where
  "example_lib =
     \<lparr>construct_error = (\<lambda>key name instruction.
          if key = Some ''bad-key'' then Some (ApiError ''invalid key'') else None),
      generate_text = (\<lambda>key m c. Inr ''text'')\<rparr>"

text \<open>A fresh session with a vault holding the given keys, and one without any vault.\<close>

definition example_world :: "string list \<Rightarrow> world" where
  "example_world keys =
     \<lparr>secrets = [''gemini'' \<mapsto> [''keys'' \<mapsto> keys]], api_key = None,
      doc_messages = [], debate_history = [], trace = []\<rparr>"

definition no_vault_world :: world where
  "no_vault_world =
     \<lparr>secrets = Map.empty, api_key = None, doc_messages = [], debate_history = [], trace = []\<rparr>"

text \<open>A library in which the key \<^verbatim>\<open>bad-key\<close> fails construction and every request is refused.\<close>

definition quota_lib :: genai where
  "quota_lib =
     \<lparr>construct_error = (\<lambda>key name instruction.
          if key = Some ''bad-key'' then Some (ApiError ''invalid key'') else None),
      generate_text = (\<lambda>key m c. Inl (ApiError ''quota exceeded''))\<rparr>"

text \<open>The world after the question \<^verbatim>\<open>What is entropy?\<close> was shown and a handle acquired
  from the vault \<^verbatim>\<open>["bad-key", "good-key"]\<close>.\<close>

definition entropy_asked :: world where
  "entropy_asked =
     \<lparr>secrets = [''gemini'' \<mapsto> [''keys'' \<mapsto> [''bad-key'', ''good-key'']]],
      api_key = Some ''good-key'',
      doc_messages = [\<lparr>role = ''user'', content = ''What is entropy?''\<rparr>],
      debate_history = [],
      trace = [StChatMessage ''user'', StMarkdown ''What is entropy?'',
               StChatMessage ''assistant'', StSpinner ''Analyzing documents...'',
               Configure ''bad-key'', Configure ''good-key'']\<rparr>"


text \<open>A session whose secrets have the section but no key list in it.\<close>

definition keyless_vault_world :: world where
  "keyless_vault_world =
     \<lparr>secrets = [''gemini'' \<mapsto> Map.empty], api_key = None, doc_messages = [],
      debate_history = [], trace = []\<rparr>"

text \<open>A question submitted in document research, and a topic submitted in the debate arena,
  with a given text in the manual key field.\<close>

definition entropy_question :: "string \<Rightarrow> widgets" where
  "entropy_question manual =
     \<lparr>text_input = manual, radio = DocumentResearch, file_uploader = [],
      chat_input = Some ''What is entropy?''\<rparr>"


section \<open>Properties of the key rotator\<close>

subsection \<open>Auxiliary facts\<close>

lemma emit_fields [simp]:
  "secrets (emit e st) = secrets st" "api_key (emit e st) = api_key st"
  "doc_messages (emit e st) = doc_messages st" "debate_history (emit e st) = debate_history st"
  "trace (emit e st) = trace st @ [e]"
  by (simp_all add: emit_def)

lemma configure_fields [simp]:
  "secrets (configure k st) = secrets st" "api_key (configure k st) = Some k"
  "doc_messages (configure k st) = doc_messages st"
  "debate_history (configure k st) = debate_history st"
  "trace (configure k st) = trace st @ [Configure k]"
  by (simp_all add: configure_def)

lemma try_keys_all_fail:
  "\<forall>k\<in>set keys. construction_fails lib d k \<Longrightarrow>
   try_keys lib d keys st =
     (None, st\<lparr>api_key := (if keys = [] then api_key st else Some (last keys)),
               trace := trace st @ map Configure keys\<rparr>)"
proof (induction keys arbitrary: st)
  case Nil
  show ?case by simp
next
  case (Cons k ks)
  then show ?case
    by (auto simp: construction_fails_def GenerativeModel_def configure_def emit_def Let_def)
qed

lemma try_keys_first_ok:
  "\<forall>b\<in>set pre. construction_fails lib d b \<Longrightarrow> \<not> construction_fails lib d k \<Longrightarrow>
   try_keys lib d (pre @ k # post) st =
     (Some (pooled_model d),
      st\<lparr>api_key := Some k, trace := trace st @ map Configure (pre @ [k])\<rparr>)"
proof (induction pre arbitrary: st)
  case Nil
  then show ?case
    by (auto simp: construction_fails_def GenerativeModel_def configure_def emit_def Let_def
        pooled_model_def)
next
  case (Cons b bs)
  then show ?case
    by (auto simp: construction_fails_def GenerativeModel_def configure_def emit_def Let_def)
qed

lemma get_working_model_no_pool:
  "pool st = None \<Longrightarrow> get_working_model lib d st = (None, st)"
  by (auto simp: pool_def get_working_model_def split: option.splits)

lemma get_working_model_exhausted:
  assumes "pool st = Some keys" and "\<forall>k\<in>set keys. construction_fails lib d k"
  shows "get_working_model lib d st =
     (None, st\<lparr>api_key := (if keys = [] then api_key st else Some (last keys)),
               trace := trace st @ map Configure keys @ [StError exhausted_message]\<rparr>)"
  using assms
  by (auto simp: pool_def get_working_model_def try_keys_all_fail emit_def split: option.splits)

lemma get_working_model_first_ok:
  assumes "pool st = Some (pre @ k # post)"
    and "\<forall>b\<in>set pre. construction_fails lib d b" and "\<not> construction_fails lib d k"
  shows "get_working_model lib d st =
     (Some (pooled_model d),
      st\<lparr>api_key := Some k, trace := trace st @ map Configure (pre @ [k])\<rparr>)"
  using assms
  by (auto simp: pool_def get_working_model_def try_keys_first_ok split: option.splits)

text \<open>The scenario of a bad key followed by a good one: the handle is bound to the good
  key, after one attempt on each.\<close>

lemma bad_key_then_good_key:
  "get_working_model example_lib ''X'' (example_world [''bad-key'', ''good-key'']) =
     (Some (pooled_model ''X''),
      (example_world [''bad-key'', ''good-key''])
         \<lparr>api_key := Some ''good-key'', trace := [Configure ''bad-key'', Configure ''good-key'']\<rparr>)"
  by (simp add: get_working_model_def example_world_def example_lib_def GenerativeModel_def
      configure_def emit_def pooled_model_def)

subsection \<open>The first working key\<close>

text \<open>
  Claim C1. Whenever the pool holds at least one key that constructs a handle under the
  instruction, \<open>get_working_model\<close> returns a handle carrying that instruction, built under
  the first such key in list order: the keys split as \<open>pre @ k # post\<close> where every key of
  \<open>pre\<close> fails and \<open>k\<close> does not, the configured key on return is \<open>k\<close>, and the keys
  tried are those of \<open>pre\<close> followed by \<open>k\<close>; no key of \<open>post\<close> is tried.
\<close>

theorem get_working_model_first_working_key:
  assumes "pool st = Some keys" and "\<exists>k\<in>set keys. \<not> construction_fails lib d k"
  shows "\<exists>pre k post. keys = pre @ k # post
           \<and> (\<forall>b\<in>set pre. construction_fails lib d b) \<and> \<not> construction_fails lib d k
           \<and> get_working_model lib d st =
               (Some (pooled_model d),
                st\<lparr>api_key := Some k, trace := trace st @ map Configure (pre @ [k])\<rparr>)"
proof -
  from assms(2) obtain pre k post where
    split: "keys = pre @ k # post" and ok: "\<not> construction_fails lib d k"
    and bad: "\<forall>b\<in>set pre. \<not> \<not> construction_fails lib d b"
    using split_list_first_prop [of keys "\<lambda>k. \<not> construction_fails lib d k"] by blast
  from bad have bad': "\<forall>b\<in>set pre. construction_fails lib d b" by simp
  from assms(1) split have "pool st = Some (pre @ k # post)" by simp
  from get_working_model_first_ok [OF this bad' ok] split bad' ok show ?thesis by blast
qed

theorem get_working_model_first_working_key_witness:
  "pool (example_world [''bad-key'', ''good-key'']) = Some [''bad-key'', ''good-key'']
   \<and> (\<exists>k\<in>set [''bad-key'', ''good-key'']. \<not> construction_fails example_lib ''X'' k)
   \<and> (\<exists>pre k post. [''bad-key'', ''good-key''] = pre @ k # post
         \<and> (\<forall>b\<in>set pre. construction_fails example_lib ''X'' b)
         \<and> \<not> construction_fails example_lib ''X'' k
         \<and> get_working_model example_lib ''X'' (example_world [''bad-key'', ''good-key'']) =
             (Some (pooled_model ''X''),
              (example_world [''bad-key'', ''good-key''])
                \<lparr>api_key := Some k,
                 trace := trace (example_world [''bad-key'', ''good-key''])
                            @ map Configure (pre @ [k])\<rparr>))"
proof -
  have p: "pool (example_world [''bad-key'', ''good-key'']) = Some [''bad-key'', ''good-key'']"
    by (simp add: pool_def example_world_def)
  have g: "\<exists>k\<in>set [''bad-key'', ''good-key'']. \<not> construction_fails example_lib ''X'' k"
    by (simp add: construction_fails_def example_lib_def)
  from p g get_working_model_first_working_key [OF p g] show ?thesis by blast
qed

subsection \<open>No pool, and an exhausted pool\<close>

text \<open>
  Claim C4, as the code has it. When no pool is configured (the section or its key list
  is missing), \<open>get_working_model\<close> tries no key and returns no handle, and it reports
  nothing: the world is left as it was. An exhausted pool returns the same value, no
  handle; it differs only in what it did before: every key was tried, in order, and the
  exhaustion error was shown.
\<close>

theorem no_pool_silent_exhausted_reported:
  assumes "pool st = None"
    and "pool st' = Some keys" and "\<forall>k\<in>set keys. construction_fails lib d' k"
  shows "get_working_model lib d st = (None, st)
       \<and> get_working_model lib d' st' =
           (None,
            st'\<lparr>api_key := (if keys = [] then api_key st' else Some (last keys)),
                trace := trace st' @ map Configure keys
                  @ [StError ([CHR 0xF0, CHR 0x9F, CHR 0x92, CHR 0x80]
                       @ '' ALL KEYS EXHAUSTED. Add more accounts to Secrets.'')]\<rparr>)
       \<and> fst (get_working_model lib d st) = fst (get_working_model lib d' st')"
proof -
  have a: "get_working_model lib d st = (None, st)"
    using assms(1) by (rule get_working_model_no_pool)
  have b: "get_working_model lib d' st' =
           (None,
            st'\<lparr>api_key := (if keys = [] then api_key st' else Some (last keys)),
                trace := trace st' @ map Configure keys
                  @ [StError ([CHR 0xF0, CHR 0x9F, CHR 0x92, CHR 0x80]
                       @ '' ALL KEYS EXHAUSTED. Add more accounts to Secrets.'')]\<rparr>)"
    unfolding exhausted_message_def [symmetric]
    using assms(2,3) by (rule get_working_model_exhausted)
  have "fst (get_working_model lib d st) = fst (get_working_model lib d' st')"
    by (simp only: a b fst_conv)
  with a b show ?thesis by blast
qed

theorem no_pool_silent_exhausted_reported_witness:
  "pool no_vault_world = None
   \<and> pool keyless_vault_world = None
   \<and> pool (example_world [''bad-key'']) = Some [''bad-key'']
   \<and> construction_fails example_lib ''X'' ''bad-key''
   \<and> get_working_model example_lib ''X'' no_vault_world = (None, no_vault_world)
   \<and> get_working_model example_lib ''X'' keyless_vault_world = (None, keyless_vault_world)
   \<and> get_working_model example_lib ''X'' (example_world [''bad-key'']) =
       (None, (example_world [''bad-key''])
          \<lparr>api_key := Some ''bad-key'',
           trace := [Configure ''bad-key'',
                     StError ([CHR 0xF0, CHR 0x9F, CHR 0x92, CHR 0x80]
                       @ '' ALL KEYS EXHAUSTED. Add more accounts to Secrets.'')]\<rparr>)"
proof -
  have a: "pool no_vault_world = None" by (simp add: pool_def no_vault_world_def)
  have a': "pool keyless_vault_world = None" by (simp add: pool_def keyless_vault_world_def)
  have b: "pool (example_world [''bad-key'']) = Some [''bad-key'']"
    by (simp add: pool_def example_world_def)
  have c: "construction_fails example_lib ''X'' ''bad-key''"
    by (simp add: construction_fails_def example_lib_def)
  have c': "\<forall>k\<in>set [''bad-key'']. construction_fails example_lib ''X'' k"
    using c by simp
  have t: "trace (example_world [''bad-key'']) = []" by (simp add: example_world_def)
  note one = no_pool_silent_exhausted_reported [OF a b c', of "''X''"]
  note two = no_pool_silent_exhausted_reported [OF a' b c', of "''X''"]
  from one have r1: "get_working_model example_lib ''X'' no_vault_world = (None, no_vault_world)"
    by blast
  from two have r2: "get_working_model example_lib ''X'' keyless_vault_world
      = (None, keyless_vault_world)"
    by blast
  from one have r3: "get_working_model example_lib ''X'' (example_world [''bad-key'']) =
       (None, (example_world [''bad-key''])
          \<lparr>api_key := Some ''bad-key'',
           trace := [Configure ''bad-key'',
                     StError ([CHR 0xF0, CHR 0x9F, CHR 0x92, CHR 0x80]
                       @ '' ALL KEYS EXHAUSTED. Add more accounts to Secrets.'')]\<rparr>)"
    by (simp add: t)
  from a a' b c r1 r2 r3 show ?thesis by blast
qed

text \<open>
  Claim C4, as stated, fails: the absent pool is not reported as an outcome of its own.
  Without a vault \<open>get_working_model\<close> returns no handle and emits nothing, and the value
  it returns is the value it returns for an exhausted pool.
\<close>

theorem no_pool_returns_what_exhausted_returns:
  "get_working_model example_lib ''X'' no_vault_world = (None, no_vault_world)
   \<and> fst (get_working_model example_lib ''X'' (example_world [''bad-key''])) = None
   \<and> fst (get_working_model example_lib ''X'' no_vault_world)
       = fst (get_working_model example_lib ''X'' (example_world [''bad-key'']))"
  by (simp add: get_working_model_def no_vault_world_def example_world_def example_lib_def
      GenerativeModel_def configure_def emit_def)

text \<open>
  Claim C6. When every key of the pool fails construction, \<open>get_working_model\<close> returns
  no handle after trying every key and reports the exhaustion error; the secrets are
  unchanged; and a second call on the resulting world, under any instruction for which
  the keys fail as well, gives the same outcome again.
\<close>

theorem exhausted_is_repeatable:
  assumes "pool st = Some keys"
    and "\<forall>k\<in>set keys. construction_fails lib d k"
    and "\<forall>k\<in>set keys. construction_fails lib d' k"
  shows "fst (get_working_model lib d st) = None
       \<and> trace (snd (get_working_model lib d st)) =
           trace st @ map Configure keys @ [StError exhausted_message]
       \<and> secrets (snd (get_working_model lib d st)) = secrets st
       \<and> fst (get_working_model lib d' (snd (get_working_model lib d st))) = None
       \<and> trace (snd (get_working_model lib d' (snd (get_working_model lib d st)))) =
           trace (snd (get_working_model lib d st)) @ map Configure keys
             @ [StError exhausted_message]
       \<and> secrets (snd (get_working_model lib d' (snd (get_working_model lib d st)))) = secrets st"
proof -
  let ?st1 = "snd (get_working_model lib d st)"
  have first: "get_working_model lib d st =
     (None, st\<lparr>api_key := (if keys = [] then api_key st else Some (last keys)),
               trace := trace st @ map Configure keys @ [StError exhausted_message]\<rparr>)"
    using assms(1,2) by (rule get_working_model_exhausted)
  then have s1: "secrets ?st1 = secrets st" by simp
  then have p1: "pool ?st1 = Some keys" using assms(1) by (simp add: pool_def)
  have second: "get_working_model lib d' ?st1 =
     (None, ?st1\<lparr>api_key := (if keys = [] then api_key ?st1 else Some (last keys)),
               trace := trace ?st1 @ map Configure keys @ [StError exhausted_message]\<rparr>)"
    using p1 assms(3) by (rule get_working_model_exhausted)
  have "fst (get_working_model lib d st) = None" using first by simp
  moreover have "trace ?st1 = trace st @ map Configure keys @ [StError exhausted_message]"
    using first by simp
  moreover have "fst (get_working_model lib d' ?st1) = None" using second by simp
  moreover have "trace (snd (get_working_model lib d' ?st1)) =
      trace ?st1 @ map Configure keys @ [StError exhausted_message]"
    by (subst second) simp
  moreover have "secrets (snd (get_working_model lib d' ?st1)) = secrets st"
    by (subst second) (simp add: s1)
  ultimately show ?thesis using s1 by simp
qed

theorem exhausted_is_repeatable_witness:
  "pool (example_world [''bad-key'']) = Some [''bad-key'']
   \<and> construction_fails example_lib ''X'' ''bad-key''
   \<and> construction_fails example_lib ''Y'' ''bad-key''
   \<and> fst (get_working_model example_lib ''X'' (example_world [''bad-key''])) = None
   \<and> fst (get_working_model example_lib ''Y''
        (snd (get_working_model example_lib ''X'' (example_world [''bad-key''])))) = None
   \<and> trace (snd (get_working_model example_lib ''Y''
        (snd (get_working_model example_lib ''X'' (example_world [''bad-key''])))))
      = [Configure ''bad-key'', StError exhausted_message,
         Configure ''bad-key'', StError exhausted_message]
   \<and> secrets (snd (get_working_model example_lib ''Y''
        (snd (get_working_model example_lib ''X'' (example_world [''bad-key''])))))
      = secrets (example_world [''bad-key''])"
proof -
  have b: "pool (example_world [''bad-key'']) = Some [''bad-key'']"
    by (simp add: pool_def example_world_def)
  have c: "\<forall>k\<in>set [''bad-key'']. construction_fails example_lib ''X'' k"
    by (simp add: construction_fails_def example_lib_def)
  have c': "\<forall>k\<in>set [''bad-key'']. construction_fails example_lib ''Y'' k"
    by (simp add: construction_fails_def example_lib_def)
  have t: "trace (example_world [''bad-key'']) = []" by (simp add: example_world_def)
  from b c c' t exhausted_is_repeatable [OF b c c'] show ?thesis by simp
qed

section \<open>The transcripts only grow\<close>

subsection \<open>Every part of a run extends the transcripts\<close>

lemma grows_refl [simp]: "grows st st"
  by (simp add: grows_def)

lemma grows_trans: "grows a b \<Longrightarrow> grows b c \<Longrightarrow> grows a c"
  by (auto simp: grows_def intro: prefix_order.trans)

lemma grows_emit [simp]: "grows st (emit e st)"
  by (simp add: grows_def)

lemma grows_emit_after: "grows st st' \<Longrightarrow> grows st (emit e st')"
  by (simp add: grows_def)

lemma grows_configure_after: "grows st st' \<Longrightarrow> grows st (configure k st')"
  by (simp add: grows_def)

lemma grows_append_doc_after: "grows st st' \<Longrightarrow> grows st (append_doc_message m st')"
  by (auto simp: grows_def append_doc_message_def intro: prefix_order.trans)

lemma grows_append_debate_after: "grows st st' \<Longrightarrow> grows st (append_debate_history x st')"
  by (auto simp: grows_def append_debate_history_def intro: prefix_order.trans)

lemma grows_try_keys: "grows st st' \<Longrightarrow> grows st (snd (try_keys lib d keys st'))"
proof (induction keys arbitrary: st')
  case Nil
  then show ?case by simp
next
  case (Cons k ks)
  from Cons.prems have "grows st (configure k st')" by (rule grows_configure_after)
  with Cons.IH [of "configure k st'"] show ?case
    by (simp add: Let_def split: sum.splits)
qed

lemma grows_get_working_model:
  "grows st st' \<Longrightarrow> grows st (snd (get_working_model lib d st'))"
  using grows_try_keys [of st st' lib d]
  by (auto simp: get_working_model_def grows_emit_after split_beta split: option.splits)

lemma grows_generate_content:
  "grows st st' \<Longrightarrow> grows st (snd (generate_content lib m c st'))"
  by (simp add: generate_content_def grows_emit_after)

lemma grows_manual_key_fallback:
  "grows st st' \<Longrightarrow> grows st (snd (manual_key_fallback lib k m st'))"
  by (auto simp: manual_key_fallback_def Let_def grows_configure_after
      split: option.splits sum.splits)

lemma grows_ask_model: "grows st st' \<Longrightarrow> grows st (ask_model lib m p fs st')"
  using grows_generate_content [of st st' lib]
  by (auto simp: ask_model_def grows_emit_after grows_append_doc_after split_beta
      split: option.splits sum.splits)

lemma grows_show_prompt: "grows st st' \<Longrightarrow> grows st (show_prompt p st')"
  by (simp add: show_prompt_def Let_def grows_emit_after grows_append_doc_after)

lemma grows_acquire_model: "grows st st' \<Longrightarrow> grows st (snd (acquire_model lib k st'))"
  by (simp add: acquire_model_def split_beta grows_manual_key_fallback grows_get_working_model)

lemma grows_submit_prompt:
  "grows st st' \<Longrightarrow> grows st (snd (submit_prompt lib k fs p st'))"
  by (auto simp: submit_prompt_def split_beta grows_ask_model grows_acquire_model
      grows_show_prompt split: sum.splits)

lemma grows_foldl:
  assumes "\<And>s x. grows st s \<Longrightarrow> grows st (f s x)"
  shows "grows st st' \<Longrightarrow> grows st (foldl f st' xs)"
  by (induction xs arbitrary: st') (simp_all add: assms)

lemma grows_render_doc_messages: "grows st st' \<Longrightarrow> grows st (render_doc_messages st')"
  unfolding render_doc_messages_def
  by (rule grows_foldl) (simp_all add: grows_emit_after)

lemma grows_research_mode:
  "grows st st' \<Longrightarrow> grows st (snd (research_mode lib k fs input st'))"
  by (auto simp: research_mode_def Let_def grows_render_doc_messages grows_submit_prompt
      split: option.splits)

lemma grows_theorist: "grows st st' \<Longrightarrow> grows st (snd (theorist lib topic st'))"
  by (auto simp: theorist_def split_beta grows_emit_after grows_append_debate_after
      grows_generate_content grows_get_working_model split: option.splits sum.splits)

lemma grows_applied: "grows st st' \<Longrightarrow> grows st (snd (applied lib topic r1 st'))"
  by (auto simp: applied_def split_beta grows_emit_after grows_append_debate_after
      grows_generate_content grows_get_working_model split: option.splits sum.splits)

lemma grows_verdict: "grows st st' \<Longrightarrow> grows st (verdict lib r1 r2 st')"
  by (auto simp: verdict_def split_beta grows_emit_after grows_append_debate_after
      grows_generate_content grows_get_working_model split: option.splits sum.splits)

lemma grows_show_topic: "grows st st' \<Longrightarrow> grows st (show_topic topic st')"
  by (simp add: show_topic_def grows_emit_after grows_append_debate_after)

lemma grows_submit_topic: "grows st st' \<Longrightarrow> grows st (submit_topic lib topic st')"
  by (simp add: submit_topic_def split_beta grows_verdict grows_applied grows_theorist
      grows_show_topic)

lemma grows_debate_mode: "grows st st' \<Longrightarrow> grows st (snd (debate_mode lib input st'))"
proof -
  assume g: "grows st st'"
  have "grows st (foldl (\<lambda>s item. emit (StMarkdown item) s) (emit (StSubheader subheader_text) st')
          (debate_history (emit (StSubheader subheader_text) st')))"
    by (rule grows_foldl) (simp_all add: grows_emit_after g)
  then show ?thesis
    by (auto simp: debate_mode_def Let_def grows_submit_topic split: option.splits)
qed

lemma grows_vault_panel: "grows st st' \<Longrightarrow> grows st (snd (vault_panel w st'))"
  by (auto simp: vault_panel_def grows_emit_after split: option.splits)

lemma grows_mode_panel: "grows st st' \<Longrightarrow> grows st (snd (mode_panel w st'))"
  by (simp add: mode_panel_def grows_emit_after)

lemma grows_run_script: "grows st (snd (run_script lib w st))"
proof -
  have "grows st (snd (vault_panel w (emit (StHeader header_text) st)))"
    by (simp add: grows_vault_panel)
  then show ?thesis
    by (auto simp: run_script_def split_beta Let_def grows_research_mode grows_debate_mode
        grows_mode_panel grows_emit_after split: sum.splits)
qed

lemma grows_run_session: "grows st (run_session actions st)"
proof (induction actions arbitrary: st)
  case Nil
  show ?case by simp
next
  case (Cons a actions)
  obtain lib w where a: "a = (lib, w)" by (cases a)
  have "grows st (snd (run_script lib w st))" by (rule grows_run_script)
  moreover have "grows (snd (run_script lib w st)) (run_session actions (snd (run_script lib w st)))"
    by (rule Cons.IH)
  ultimately show ?case unfolding a by (auto intro: grows_trans)
qed

lemma run_session_append:
  "run_session (actions @ later) st = run_session later (run_session actions st)"
  by (induction actions arbitrary: st) auto

subsection \<open>The append-only law\<close>

text \<open>
  Claim C2. For every sequence of user actions, in either mode and whatever the library
  answers, each of the two transcripts after the whole sequence is the transcript after
  any earlier part of it, followed by further entries: no entry is removed, edited or
  reordered. A run that ends with an exception keeps what it had appended.
\<close>

theorem transcript_append_only:
  "prefix (doc_messages (run_session actions st))
          (doc_messages (run_session (actions @ later) st))
   \<and> prefix (debate_history (run_session actions st))
            (debate_history (run_session (actions @ later) st))"
  using grows_run_session [of "run_session actions st" later]
  by (simp add: run_session_append grows_def)

section \<open>Properties of document research\<close>

subsection \<open>Acquiring a handle touches neither the secrets nor the transcripts\<close>

lemma try_keys_frame:
  "secrets (snd (try_keys lib d keys st)) = secrets st
   \<and> doc_messages (snd (try_keys lib d keys st)) = doc_messages st
   \<and> debate_history (snd (try_keys lib d keys st)) = debate_history st"
  by (induction keys arbitrary: st) (auto simp: Let_def split: sum.splits)

lemma get_working_model_frame [simp]:
  "secrets (snd (get_working_model lib d st)) = secrets st"
  "doc_messages (snd (get_working_model lib d st)) = doc_messages st"
  "debate_history (snd (get_working_model lib d st)) = debate_history st"
  using try_keys_frame [of lib d _ st]
  by (auto simp: get_working_model_def split_beta split: option.splits)

lemma manual_key_fallback_frame [simp]:
  "secrets (snd (manual_key_fallback lib k m st)) = secrets st"
  "doc_messages (snd (manual_key_fallback lib k m st)) = doc_messages st"
  "debate_history (snd (manual_key_fallback lib k m st)) = debate_history st"
  by (auto simp: manual_key_fallback_def Let_def split: option.splits sum.splits)

lemma acquire_model_frame [simp]:
  "secrets (snd (acquire_model lib k st)) = secrets st"
  "doc_messages (snd (acquire_model lib k st)) = doc_messages st"
  "debate_history (snd (acquire_model lib k st)) = debate_history st"
  by (simp_all add: acquire_model_def split_beta)

lemma doc_messages_show_prompt [simp]:
  "doc_messages (show_prompt prompt st) = doc_messages st @ [\<lparr>role = ''user'', content = prompt\<rparr>]"
  by (simp add: show_prompt_def Let_def append_doc_message_def)

subsection \<open>A failed request\<close>

text \<open>
  Claim C5. In document research, when a handle was acquired and the request raises, the
  exception is caught: the run ends without an exception, the error is shown as
  \<^verbatim>\<open>Error: ...\<close>, and the transcript holds what it held before the submission followed by
  the user entry; no assistant entry is appended.
\<close>

theorem remote_failure_leaves_transcript:
  assumes "acquire_model lib manual_key (show_prompt prompt st) = (Inr (Some m), st')"
    and "generate_text lib (api_key st') m (build_content prompt uploaded_files) = Inl e"
  shows "submit_prompt lib manual_key uploaded_files prompt st =
           (None, st'\<lparr>trace := trace st'
                     @ [Generate (api_key st') m (build_content prompt uploaded_files),
                        StError (''Error: '' @ str e)]\<rparr>)
       \<and> doc_messages (snd (submit_prompt lib manual_key uploaded_files prompt st)) =
           doc_messages st @ [\<lparr>role = ''user'', content = prompt\<rparr>]"
proof -
  have run: "submit_prompt lib manual_key uploaded_files prompt st =
           (None, st'\<lparr>trace := trace st'
                     @ [Generate (api_key st') m (build_content prompt uploaded_files),
                        StError (''Error: '' @ str e)]\<rparr>)"
    using assms by (simp add: submit_prompt_def ask_model_def generate_content_def emit_def)
  have "doc_messages st' = doc_messages (show_prompt prompt st)"
    using acquire_model_frame(2) [of lib manual_key "show_prompt prompt st"] assms(1) by simp
  then have "doc_messages st' = doc_messages st @ [\<lparr>role = ''user'', content = prompt\<rparr>]"
    by simp
  with run show ?thesis by simp
qed

theorem remote_failure_leaves_transcript_witness:
  "acquire_model quota_lib None
       (show_prompt ''What is entropy?'' (example_world [''bad-key'', ''good-key'']))
     = (Inr (Some (pooled_model research_directive)), entropy_asked)
   \<and> generate_text quota_lib (api_key entropy_asked) (pooled_model research_directive)
         (build_content ''What is entropy?'' []) = Inl (ApiError ''quota exceeded'')
   \<and> submit_prompt quota_lib None [] ''What is entropy?''
         (example_world [''bad-key'', ''good-key''])
       = (None, entropy_asked\<lparr>trace := trace entropy_asked
            @ [Generate (Some ''good-key'') (pooled_model research_directive)
                 [Text ''What is entropy?''],
               StError ''Error: quota exceeded'']\<rparr>)
   \<and> doc_messages (snd (submit_prompt quota_lib None [] ''What is entropy?''
         (example_world [''bad-key'', ''good-key''])))
       = [\<lparr>role = ''user'', content = ''What is entropy?''\<rparr>]"
proof -
  have a: "acquire_model quota_lib None
       (show_prompt ''What is entropy?'' (example_world [''bad-key'', ''good-key'']))
     = (Inr (Some (pooled_model research_directive)), entropy_asked)"
    by (simp add: acquire_model_def show_prompt_def get_working_model_def example_world_def
      quota_lib_def GenerativeModel_def configure_def emit_def pooled_model_def
      manual_key_fallback_def append_doc_message_def Let_def entropy_asked_def)
  have g: "generate_text quota_lib (api_key entropy_asked) (pooled_model research_directive)
         (build_content ''What is entropy?'' []) = Inl (ApiError ''quota exceeded'')"
    by (simp add: quota_lib_def)
  have k: "api_key entropy_asked = Some ''good-key''" by (simp add: entropy_asked_def)
  have d: "doc_messages (example_world [''bad-key'', ''good-key'']) = []"
    by (simp add: example_world_def)
  have m: "doc_messages entropy_asked = [\<lparr>role = ''user'', content = ''What is entropy?''\<rparr>]"
    by (simp add: entropy_asked_def)
  from a g remote_failure_leaves_transcript [OF a g] show ?thesis
    by (simp add: k d m build_content_def)
qed

section \<open>Properties of the debate arena\<close>

subsection \<open>Auxiliary facts\<close>

lemma find_split:
  "find P xs = Some k \<Longrightarrow>
   \<exists>post. xs = takeWhile (\<lambda>x. \<not> P x) xs @ k # post"
  by (induction xs) (auto split: if_splits)

lemma find_holds: "find P xs = Some k \<Longrightarrow> P k"
  by (induction xs) (auto split: if_splits)

lemma pool_update [simp]:
  "pool (st\<lparr>api_key := a\<rparr>) = pool st" "pool (st\<lparr>trace := t\<rparr>) = pool st"
  "pool (st\<lparr>doc_messages := d\<rparr>) = pool st" "pool (st\<lparr>debate_history := h\<rparr>) = pool st"
  "pool (emit e st) = pool st"
  by (simp_all add: pool_def)

lemma get_working_model_first_working:
  assumes "pool st = Some keys" and "first_working lib d keys = Some k"
  shows "get_working_model lib d st =
     (Some (pooled_model d),
      st\<lparr>api_key := Some k,
         trace := trace st @ map Configure (failed_first lib d keys @ [k])\<rparr>)"
proof -
  from assms(2) obtain post where
    split: "keys = failed_first lib d keys @ k # post"
    using find_split [of "\<lambda>k. \<not> construction_fails lib d k" keys k]
    by (auto simp: first_working_def failed_first_def)
  have ok: "\<not> construction_fails lib d k"
    using assms(2) find_holds [of "\<lambda>k. \<not> construction_fails lib d k" keys k]
    by (simp add: first_working_def)
  have bad: "\<forall>b\<in>set (failed_first lib d keys). construction_fails lib d b"
    by (auto simp: failed_first_def dest: set_takeWhileD)
  have "pool st = Some (failed_first lib d keys @ k # post)"
    using assms(1) split by simp
  from get_working_model_first_ok [OF this bad ok] show ?thesis .
qed

lemma requests_simps [simp]:
  "requests [] = []"
  "requests (xs @ ys) = requests xs @ requests ys"
  "requests (Generate k m c # xs) = Generate k m c # requests xs"
  "requests (Configure key # xs) = requests xs"
  "requests (StSpinner s # xs) = requests xs"
  "requests (StMarkdown s # xs) = requests xs"
  "requests (StError s # xs) = requests xs"
  "requests (StChatMessage s # xs) = requests xs"
  "requests (StHeader s # xs) = requests xs"
  "requests (StSuccess s # xs) = requests xs"
  "requests (StCaption s # xs) = requests xs"
  "requests (StWarning s # xs) = requests xs"
  "requests (StInfo s # xs) = requests xs"
  "requests (StTitle s # xs) = requests xs"
  "requests (StSubheader s # xs) = requests xs"
  by (simp_all add: requests_def)

lemma requests_map_Configure [simp]: "requests (map Configure ks) = []"
  by (induction ks) simp_all

lemma theorist_ok:
  assumes "pool st = Some keys" and "first_working lib theorist_directive keys = Some k"
    and "generate_text lib (Some k) (pooled_model theorist_directive)
           [Text (theorist_prompt topic)] = Inr r1"
  shows "theorist lib topic st =
     (Some r1,
      st\<lparr>api_key := Some k,
         debate_history := debate_history st @ [html_1 r1],
         trace := trace st @ [StSpinner ''Theorist is deriving axioms...'']
                  @ map Configure (failed_first lib theorist_directive keys @ [k])
                  @ [Generate (Some k) (pooled_model theorist_directive)
                       [Text (theorist_prompt topic)],
                     StMarkdown (html_1 r1)]\<rparr>)"
proof -
  have p: "pool (emit (StSpinner ''Theorist is deriving axioms...'') st) = Some keys"
    using assms(1) by simp
  show ?thesis
    unfolding theorist_def get_working_model_first_working [OF p assms(2)]
    using assms(3)
    by (simp add: generate_content_def emit_def append_debate_history_def)
qed

lemma applied_ok:
  assumes "pool st = Some keys" and "first_working lib applied_directive keys = Some k"
    and "generate_text lib (Some k) (pooled_model applied_directive)
           [Text (''Practical view: '' @ topic @ ''. Critique: '' @ r1)] = Inr r2"
  shows "applied lib topic (Some r1) st =
     (Some r2,
      st\<lparr>api_key := Some k,
         debate_history := debate_history st @ [html_2 r2],
         trace := trace st @ [StSpinner ''Applied Scientist is simulating...'']
                  @ map Configure (failed_first lib applied_directive keys @ [k])
                  @ [Generate (Some k) (pooled_model applied_directive)
                       [Text (''Practical view: '' @ topic @ ''. Critique: '' @ r1)],
                     StMarkdown (html_2 r2)]\<rparr>)"
proof -
  have p: "pool (emit (StSpinner ''Applied Scientist is simulating...'') st) = Some keys"
    using assms(1) by simp
  show ?thesis
    unfolding applied_def get_working_model_first_working [OF p assms(2)]
    using assms(3)
    by (simp add: generate_content_def emit_def append_debate_history_def applied_prompt_def)
qed

lemma verdict_ok:
  assumes "pool st = Some keys" and "first_working lib verdict_directive keys = Some k"
    and "generate_text lib (Some k) (pooled_model verdict_directive)
           [Text (''Theorist: '' @ r1 @ ''. Applied: '' @ r2 @ ''. Verdict?'')] = Inr r3"
  shows "verdict lib (Some r1) (Some r2) st =
      st\<lparr>api_key := Some k,
         debate_history := debate_history st @ [html_3 r3],
         trace := trace st @ [StSpinner ''Pavel is rendering verdict...'']
                  @ map Configure (failed_first lib verdict_directive keys @ [k])
                  @ [Generate (Some k) (pooled_model verdict_directive)
                       [Text (''Theorist: '' @ r1 @ ''. Applied: '' @ r2 @ ''. Verdict?'')],
                     StMarkdown (html_3 r3)]\<rparr>"
proof -
  have p: "pool (emit (StSpinner ''Pavel is rendering verdict...'') st) = Some keys"
    using assms(1) by simp
  show ?thesis
    unfolding verdict_def get_working_model_first_working [OF p assms(2)]
    using assms(3)
    by (simp add: generate_content_def emit_def append_debate_history_def verdict_prompt_def)
qed

subsection \<open>A fully successful debate\<close>

text \<open>The run of a fully successful debate, in terms of the script's own texts.\<close>

lemma successful_debate_run:
  assumes "pool st = Some keys"
    and "first_working lib theorist_directive keys = Some k1"
    and "first_working lib applied_directive keys = Some k2"
    and "first_working lib verdict_directive keys = Some k3"
    and "generate_text lib (Some k1) (pooled_model theorist_directive)
           [Text (theorist_prompt topic)] = Inr r1"
    and "generate_text lib (Some k2) (pooled_model applied_directive)
           [Text (''Practical view: '' @ topic @ ''. Critique: '' @ r1)] = Inr r2"
    and "generate_text lib (Some k3) (pooled_model verdict_directive)
           [Text (''Theorist: '' @ r1 @ ''. Applied: '' @ r2 @ ''. Verdict?'')] = Inr r3"
  shows "debate_history (submit_topic lib topic st) =
           debate_history st @ [you_entry topic, html_1 r1, html_2 r2, html_3 r3]
       \<and> requests (trace (submit_topic lib topic st)) =
           requests (trace st)
           @ [Generate (Some k1) (pooled_model theorist_directive)
                [Text (theorist_prompt topic)],
              Generate (Some k2) (pooled_model applied_directive)
                [Text (''Practical view: '' @ topic @ ''. Critique: '' @ r1)],
              Generate (Some k3) (pooled_model verdict_directive)
                [Text (''Theorist: '' @ r1 @ ''. Applied: '' @ r2 @ ''. Verdict?'')]]
       \<and> sublist r1 (''Practical view: '' @ topic @ ''. Critique: '' @ r1)
       \<and> sublist r1 (''Theorist: '' @ r1 @ ''. Applied: '' @ r2 @ ''. Verdict?'')
       \<and> sublist r2 (''Theorist: '' @ r1 @ ''. Applied: '' @ r2 @ ''. Verdict?'')"
proof -
  let ?s0 = "show_topic topic st"
  have p0: "pool ?s0 = Some keys"
    using assms(1) by (simp add: show_topic_def append_debate_history_def)
  note t = theorist_ok [OF p0 assms(2) assms(5)]
  let ?s1 = "snd (theorist lib topic ?s0)"
  have p1: "pool ?s1 = Some keys" using p0 by (simp add: t)
  note a = applied_ok [OF p1 assms(3) assms(6)]
  let ?s2 = "snd (applied lib topic (Some r1) ?s1)"
  have p2: "pool ?s2 = Some keys" using p1 by (simp add: a)
  note v = verdict_ok [OF p2 assms(4) assms(7)]
  have f1: "fst (theorist lib topic ?s0) = Some r1" by (simp add: t)
  have f2: "fst (applied lib topic (Some r1) ?s1) = Some r2" by (simp add: a)
  have run: "submit_topic lib topic st = verdict lib (Some r1) (Some r2) ?s2"
    by (simp only: submit_topic_def split_beta f1 f2)
  have h0: "debate_history ?s0 = debate_history st @ [you_entry topic]"
    by (simp add: show_topic_def append_debate_history_def)
  have h1: "debate_history ?s1 = debate_history ?s0 @ [html_1 r1]" by (subst t) simp
  have h2: "debate_history ?s2 = debate_history ?s1 @ [html_2 r2]" by (subst a) simp
  have h3: "debate_history (verdict lib (Some r1) (Some r2) ?s2) =
            debate_history ?s2 @ [html_3 r3]" by (subst v) simp
  have h: "debate_history (submit_topic lib topic st) =
           debate_history st @ [you_entry topic, html_1 r1, html_2 r2, html_3 r3]"
    by (simp only: run h3 h2 h1 h0) simp
  have r0: "requests (trace ?s0) = requests (trace st)"
    by (simp add: show_topic_def append_debate_history_def)
  have r1: "requests (trace ?s1) = requests (trace ?s0)
      @ [Generate (Some k1) (pooled_model theorist_directive) [Text (theorist_prompt topic)]]"
    by (subst t) simp
  have r2: "requests (trace ?s2) = requests (trace ?s1)
      @ [Generate (Some k2) (pooled_model applied_directive)
           [Text (''Practical view: '' @ topic @ ''. Critique: '' @ r1)]]"
    by (subst a) simp
  have r3: "requests (trace (verdict lib (Some r1) (Some r2) ?s2)) = requests (trace ?s2)
      @ [Generate (Some k3) (pooled_model verdict_directive)
           [Text (''Theorist: '' @ r1 @ ''. Applied: '' @ r2 @ ''. Verdict?'')]]"
    by (subst v) simp
  have r: "requests (trace (submit_topic lib topic st)) =
           requests (trace st)
           @ [Generate (Some k1) (pooled_model theorist_directive)
                [Text (theorist_prompt topic)],
              Generate (Some k2) (pooled_model applied_directive)
                [Text (''Practical view: '' @ topic @ ''. Critique: '' @ r1)],
              Generate (Some k3) (pooled_model verdict_directive)
                [Text (''Theorist: '' @ r1 @ ''. Applied: '' @ r2 @ ''. Verdict?'')]]"
    by (simp only: run r3 r2 r1 r0) simp
  have s1: "sublist r1 (''Practical view: '' @ topic @ ''. Critique: '' @ r1)"
    by (rule suffix_imp_sublist) (simp add: suffix_def)
  have s2: "sublist r1 (''Theorist: '' @ r1 @ ''. Applied: '' @ r2 @ ''. Verdict?'')"
    by (rule sublist_appendI)
  have "sublist r2 ((''Theorist: '' @ r1 @ ''. Applied: '') @ r2 @ ''. Verdict?'')"
    by (rule sublist_appendI)
  then have s3: "sublist r2 (''Theorist: '' @ r1 @ ''. Applied: '' @ r2 @ ''. Verdict?'')"
    by simp
  from h r s1 s2 s3 show ?thesis by blast
qed

lemmas debate_texts =
  theorist_directive_def applied_directive_def verdict_directive_def pooled_model_def
  theorist_prompt_def you_entry_def html_1_def html_2_def html_3_def sq_def

text \<open>
  Claim C7. When each of the three steps finds a working key in the pool and each of its
  requests is answered, the transcript gains exactly four entries, in the order user,
  theorist, applied, verdict, each written out here as the text the script builds; the
  three requests sent are the three prompts, the second holding the theorist's answer
  and the third holding both earlier answers, verbatim.
\<close>

theorem successful_debate_four_entries:
  assumes "pool st = Some keys"
    and "first_working lib ''You are a Formal Theorist. Use LaTeX. Be stubborn.'' keys = Some k1"
    and "first_working lib ''You are an Applied Scientist. Critique the Theorist.'' keys = Some k2"
    and "first_working lib ''You are Pavel, Head Researcher. Synthesize.'' keys = Some k3"
    and "generate_text lib (Some k1)
           \<lparr>model_name = ''gemini-1.5-flash'',
            system_instruction = Some ''You are a Formal Theorist. Use LaTeX. Be stubborn.''\<rparr>
           [Text (''Theoretical view: '' @ topic)] = Inr r1"
    and "generate_text lib (Some k2)
           \<lparr>model_name = ''gemini-1.5-flash'',
            system_instruction = Some ''You are an Applied Scientist. Critique the Theorist.''\<rparr>
           [Text (''Practical view: '' @ topic @ ''. Critique: '' @ r1)] = Inr r2"
    and "generate_text lib (Some k3)
           \<lparr>model_name = ''gemini-1.5-flash'',
            system_instruction = Some ''You are Pavel, Head Researcher. Synthesize.''\<rparr>
           [Text (''Theorist: '' @ r1 @ ''. Applied: '' @ r2 @ ''. Verdict?'')] = Inr r3"
  shows "debate_history (submit_topic lib topic st) =
           debate_history st
           @ [''**You:** '' @ topic,
              ''<div class='' @ [CHR 0x27] @ ''theorist'' @ [CHR 0x27] @ ''><b>''
                @ [CHR 0xF0, CHR 0x9F, CHR 0x94, CHR 0xB5] @ '' Theorist:</b><br>''
                @ r1 @ ''</div>'',
              ''<div class='' @ [CHR 0x27] @ ''applied'' @ [CHR 0x27] @ ''><b>''
                @ [CHR 0xF0, CHR 0x9F, CHR 0x9F, CHR 0xA2] @ '' Applied:</b><br>''
                @ r2 @ ''</div>'',
              ''<div class='' @ [CHR 0x27] @ ''verdict'' @ [CHR 0x27] @ ''><b>''
                @ [CHR 0xE2, CHR 0x9A, CHR 0x96, CHR 0xEF, CHR 0xB8, CHR 0x8F]
                @ '' FINAL VERDICT:</b><br>'' @ r3 @ ''</div>'']
       \<and> requests (trace (submit_topic lib topic st)) =
           requests (trace st)
           @ [Generate (Some k1)
                \<lparr>model_name = ''gemini-1.5-flash'',
                 system_instruction = Some ''You are a Formal Theorist. Use LaTeX. Be stubborn.''\<rparr>
                [Text (''Theoretical view: '' @ topic)],
              Generate (Some k2)
                \<lparr>model_name = ''gemini-1.5-flash'',
                 system_instruction = Some ''You are an Applied Scientist. Critique the Theorist.''\<rparr>
                [Text (''Practical view: '' @ topic @ ''. Critique: '' @ r1)],
              Generate (Some k3)
                \<lparr>model_name = ''gemini-1.5-flash'',
                 system_instruction = Some ''You are Pavel, Head Researcher. Synthesize.''\<rparr>
                [Text (''Theorist: '' @ r1 @ ''. Applied: '' @ r2 @ ''. Verdict?'')]]
       \<and> sublist r1 (''Practical view: '' @ topic @ ''. Critique: '' @ r1)
       \<and> sublist r1 (''Theorist: '' @ r1 @ ''. Applied: '' @ r2 @ ''. Verdict?'')
       \<and> sublist r2 (''Theorist: '' @ r1 @ ''. Applied: '' @ r2 @ ''. Verdict?'')"
proof -
  have k1: "first_working lib theorist_directive keys = Some k1"
    using assms(2) by (simp only: theorist_directive_def)
  have k2: "first_working lib applied_directive keys = Some k2"
    using assms(3) by (simp only: applied_directive_def)
  have k3: "first_working lib verdict_directive keys = Some k3"
    using assms(4) by (simp only: verdict_directive_def)
  have g1: "generate_text lib (Some k1) (pooled_model theorist_directive)
           [Text (theorist_prompt topic)] = Inr r1"
    using assms(5) by (simp only: theorist_directive_def pooled_model_def theorist_prompt_def)
  have g2: "generate_text lib (Some k2) (pooled_model applied_directive)
           [Text (''Practical view: '' @ topic @ ''. Critique: '' @ r1)] = Inr r2"
    using assms(6) by (simp only: applied_directive_def pooled_model_def)
  have g3: "generate_text lib (Some k3) (pooled_model verdict_directive)
           [Text (''Theorist: '' @ r1 @ ''. Applied: '' @ r2 @ ''. Verdict?'')] = Inr r3"
    using assms(7) by (simp only: verdict_directive_def pooled_model_def)
  from successful_debate_run [OF assms(1) k1 k2 k3 g1 g2 g3]
  show ?thesis by (simp only: debate_texts)
qed

theorem successful_debate_four_entries_witness:
  "pool (example_world [''bad-key'', ''good-key'']) = Some [''bad-key'', ''good-key'']
   \<and> first_working example_lib ''You are a Formal Theorist. Use LaTeX. Be stubborn.''
         [''bad-key'', ''good-key''] = Some ''good-key''
   \<and> first_working example_lib ''You are an Applied Scientist. Critique the Theorist.''
         [''bad-key'', ''good-key''] = Some ''good-key''
   \<and> first_working example_lib ''You are Pavel, Head Researcher. Synthesize.''
         [''bad-key'', ''good-key''] = Some ''good-key''
   \<and> generate_text example_lib (Some ''good-key'')
         \<lparr>model_name = ''gemini-1.5-flash'',
          system_instruction = Some ''You are a Formal Theorist. Use LaTeX. Be stubborn.''\<rparr>
         [Text ''Theoretical view: Is string theory falsifiable?''] = Inr ''text''
   \<and> generate_text example_lib (Some ''good-key'')
         \<lparr>model_name = ''gemini-1.5-flash'',
          system_instruction = Some ''You are an Applied Scientist. Critique the Theorist.''\<rparr>
         [Text ''Practical view: Is string theory falsifiable?. Critique: text''] = Inr ''text''
   \<and> generate_text example_lib (Some ''good-key'')
         \<lparr>model_name = ''gemini-1.5-flash'',
          system_instruction = Some ''You are Pavel, Head Researcher. Synthesize.''\<rparr>
         [Text ''Theorist: text. Applied: text. Verdict?''] = Inr ''text''
   \<and> debate_history (submit_topic example_lib ''Is string theory falsifiable?''
         (example_world [''bad-key'', ''good-key''])) =
       [''**You:** Is string theory falsifiable?'',
        ''<div class='' @ [CHR 0x27] @ ''theorist'' @ [CHR 0x27] @ ''><b>''
          @ [CHR 0xF0, CHR 0x9F, CHR 0x94, CHR 0xB5] @ '' Theorist:</b><br>text</div>'',
        ''<div class='' @ [CHR 0x27] @ ''applied'' @ [CHR 0x27] @ ''><b>''
          @ [CHR 0xF0, CHR 0x9F, CHR 0x9F, CHR 0xA2] @ '' Applied:</b><br>text</div>'',
        ''<div class='' @ [CHR 0x27] @ ''verdict'' @ [CHR 0x27] @ ''><b>''
          @ [CHR 0xE2, CHR 0x9A, CHR 0x96, CHR 0xEF, CHR 0xB8, CHR 0x8F]
          @ '' FINAL VERDICT:</b><br>text</div>'']
   \<and> requests (trace (submit_topic example_lib ''Is string theory falsifiable?''
         (example_world [''bad-key'', ''good-key'']))) =
       [Generate (Some ''good-key'')
          \<lparr>model_name = ''gemini-1.5-flash'',
           system_instruction = Some ''You are a Formal Theorist. Use LaTeX. Be stubborn.''\<rparr>
          [Text ''Theoretical view: Is string theory falsifiable?''],
        Generate (Some ''good-key'')
          \<lparr>model_name = ''gemini-1.5-flash'',
           system_instruction = Some ''You are an Applied Scientist. Critique the Theorist.''\<rparr>
          [Text ''Practical view: Is string theory falsifiable?. Critique: text''],
        Generate (Some ''good-key'')
          \<lparr>model_name = ''gemini-1.5-flash'',
           system_instruction = Some ''You are Pavel, Head Researcher. Synthesize.''\<rparr>
          [Text ''Theorist: text. Applied: text. Verdict?'']]"
proof -
  have p: "pool (example_world [''bad-key'', ''good-key'']) = Some [''bad-key'', ''good-key'']"
    by (simp add: pool_def example_world_def)
  have k1: "first_working example_lib ''You are a Formal Theorist. Use LaTeX. Be stubborn.''
         [''bad-key'', ''good-key''] = Some ''good-key''"
    by (simp add: first_working_def construction_fails_def example_lib_def)
  have k2: "first_working example_lib ''You are an Applied Scientist. Critique the Theorist.''
         [''bad-key'', ''good-key''] = Some ''good-key''"
    by (simp add: first_working_def construction_fails_def example_lib_def)
  have k3: "first_working example_lib ''You are Pavel, Head Researcher. Synthesize.''
         [''bad-key'', ''good-key''] = Some ''good-key''"
    by (simp add: first_working_def construction_fails_def example_lib_def)
  have g1: "generate_text example_lib (Some ''good-key'')
         \<lparr>model_name = ''gemini-1.5-flash'',
          system_instruction = Some ''You are a Formal Theorist. Use LaTeX. Be stubborn.''\<rparr>
         [Text (''Theoretical view: '' @ ''Is string theory falsifiable?'')] = Inr ''text''"
    by (simp add: example_lib_def)
  have g2: "generate_text example_lib (Some ''good-key'')
         \<lparr>model_name = ''gemini-1.5-flash'',
          system_instruction = Some ''You are an Applied Scientist. Critique the Theorist.''\<rparr>
         [Text (''Practical view: '' @ ''Is string theory falsifiable?'' @ ''. Critique: '' @ ''text'')]
         = Inr ''text''"
    by (simp add: example_lib_def)
  have g3: "generate_text example_lib (Some ''good-key'')
         \<lparr>model_name = ''gemini-1.5-flash'',
          system_instruction = Some ''You are Pavel, Head Researcher. Synthesize.''\<rparr>
         [Text (''Theorist: '' @ ''text'' @ ''. Applied: '' @ ''text'' @ ''. Verdict?'')]
         = Inr ''text''"
    by (simp add: example_lib_def)
  have e: "debate_history (example_world [''bad-key'', ''good-key'']) = []"
    "trace (example_world [''bad-key'', ''good-key'']) = []"
    by (simp_all add: example_world_def)
  from p k1 k2 k3 g1 g2 g3 successful_debate_four_entries [OF p k1 k2 k3 g1 g2 g3]
  show ?thesis by (simp add: e)
qed

subsection \<open>A failed step\<close>

text \<open>A step leaves its answer unbound exactly when it gets no handle or its request
  raises; a step that binds its answer has appended its entry.\<close>

lemma get_working_model_requests [simp]:
  "requests (trace (snd (get_working_model lib d st))) = requests (trace st)"
proof -
  have "requests (trace (snd (try_keys lib d keys st'))) = requests (trace st')" for keys st'
    by (induction keys arbitrary: st') (auto simp: Let_def split: sum.splits)
  then show ?thesis
    by (auto simp: get_working_model_def split_beta split: option.splits)
qed

lemma theorist_fails_iff:
  "fst (theorist lib topic st) = None \<longleftrightarrow>
     (case get_working_model lib theorist_directive
             (emit (StSpinner ''Theorist is deriving axioms...'') st) of
        (None, st1) \<Rightarrow> True
      | (Some m, st1) \<Rightarrow> isl (generate_text lib (api_key st1) m [Text (theorist_prompt topic)]))"
  by (auto simp: theorist_def generate_content_def split: option.splits sum.splits prod.splits)

lemma applied_fails_iff:
  "fst (applied lib topic (Some r1) st) = None \<longleftrightarrow>
     (case get_working_model lib applied_directive
             (emit (StSpinner ''Applied Scientist is simulating...'') st) of
        (None, st1) \<Rightarrow> True
      | (Some m, st1) \<Rightarrow>
          isl (generate_text lib (api_key st1) m
                 [Text (''Practical view: '' @ topic @ ''. Critique: '' @ r1)]))"
  by (auto simp: applied_def applied_prompt_def generate_content_def
      split: option.splits sum.splits prod.splits)













section \<open>Properties of a whole run\<close>

subsection \<open>Auxiliary facts\<close>

lemmas script_eval =
  run_script_def vault_panel_def mode_panel_def research_mode_def render_doc_messages_def
  submit_prompt_def show_prompt_def acquire_model_def manual_key_fallback_def ask_model_def
  build_content_def append_doc_message_def get_working_model_def GenerativeModel_def
  configure_def emit_def generate_content_def Let_def

lemma configured_append [simp]: "configured (xs @ ys) = configured xs @ configured ys"
  by (induction xs rule: configured.induct) simp_all

lemma configured_map_Configure [simp]: "configured (map Configure ks) = ks"
  by (induction ks) simp_all

lemma render_doc_messages_eq:
  "render_doc_messages st =
     st\<lparr>trace := trace st
        @ concat (map (\<lambda>m. [StChatMessage (role m), StMarkdown (content m)]) (doc_messages st))\<rparr>"
proof -
  have "foldl (\<lambda>s m. emit (StMarkdown (content m)) (emit (StChatMessage (role m)) s)) s xs =
        s\<lparr>trace := trace s
          @ concat (map (\<lambda>m. [StChatMessage (role m), StMarkdown (content m)]) xs)\<rparr>" for s xs
    by (induction xs arbitrary: s) (simp_all add: emit_def)
  then show ?thesis by (simp add: render_doc_messages_def)
qed

lemma requests_rendered [simp]:
  "requests (concat (map (\<lambda>m. [StChatMessage (role m), StMarkdown (content m)]) xs)) = []"
  by (induction xs) simp_all

lemma configured_rendered [simp]:
  "configured (concat (map (\<lambda>m. [StChatMessage (role m), StMarkdown (content m)]) xs)) = []"
  by (induction xs) simp_all

lemma render_doc_messages_fields [simp]:
  "secrets (render_doc_messages st) = secrets st"
  "api_key (render_doc_messages st) = api_key st"
  "doc_messages (render_doc_messages st) = doc_messages st"
  "requests (trace (render_doc_messages st)) = requests (trace st)"
  "configured (trace (render_doc_messages st)) = configured (trace st)"
  by (simp_all add: render_doc_messages_eq)

lemma show_prompt_fields [simp]:
  "secrets (show_prompt p st) = secrets st"
  "requests (trace (show_prompt p st)) = requests (trace st)"
  "configured (trace (show_prompt p st)) = configured (trace st)"
  by (simp_all add: show_prompt_def Let_def append_doc_message_def)

lemma ask_model_events:
  "requests (trace (ask_model lib (Some m) p fs st)) =
     requests (trace st) @ [Generate (api_key st) m (build_content p fs)]"
  "configured (trace (ask_model lib (Some m) p fs st)) = configured (trace st)"
  by (auto simp: ask_model_def generate_content_def append_doc_message_def split: sum.splits)

lemma run_script_without_vault:
  assumes "secrets st ''gemini'' = None" and "radio w = DocumentResearch"
    and "chat_input w = Some prompt" and "prompt \<noteq> []"
  shows "run_script lib w st =
     submit_prompt lib (Some (text_input w)) (file_uploader w) prompt
       (render_doc_messages
         (emit (StTitle title_text)
           (emit (StInfo ''Upload books and solve equations.'')
             (emit (StWarning no_vault_text) (emit (StHeader header_text) st)))))"
  using assms by (simp add: run_script_def vault_panel_def mode_panel_def research_mode_def)

lemma submit_prompt_manual:
  assumes "secrets st ''gemini'' = None" and "k \<noteq> []"
    and "construct_error lib (Some k) ''gemini-1.5-flash'' None = None"
  shows "submit_prompt lib (Some k) fs p st =
     (None, ask_model lib (Some \<lparr>model_name = ''gemini-1.5-flash'', system_instruction = None\<rparr>)
              p fs (configure k (show_prompt p st)))"
  using assms
  by (simp add: submit_prompt_def acquire_model_def get_working_model_def
      manual_key_fallback_def GenerativeModel_def Let_def)

lemma try_keys_instruction:
  "try_keys lib d keys st = (Some m, st') \<Longrightarrow> m = pooled_model d"
  by (induction keys arbitrary: st)
     (auto simp: Let_def GenerativeModel_def pooled_model_def split: sum.splits option.splits)

lemma get_working_model_instruction:
  "get_working_model lib d st = (Some m, st') \<Longrightarrow> m = pooled_model d"
  by (auto simp: get_working_model_def split: option.splits prod.splits
      dest: try_keys_instruction)



lemma pool_render_show [simp]:
  "pool (render_doc_messages st) = pool st" "pool (show_prompt p st) = pool st"
  by (simp_all add: pool_def)



subsection \<open>When the manual key is tried\<close>






subsection \<open>The handle of the manual key\<close>

text \<open>
  Claim C10. In document research without a vault section, a question asked with a manual
  key that constructs is sent through a handle with no system instruction, under that
  key; every handle that \<open>get_working_model\<close> returns carries the instruction it was
  called with.
\<close>

theorem manual_handle_has_no_instruction:
  assumes "secrets st ''gemini'' = None" and "radio w = DocumentResearch"
    and "chat_input w = Some prompt" and "prompt \<noteq> []" and "text_input w \<noteq> []"
    and "construct_error lib (Some (text_input w)) ''gemini-1.5-flash'' None = None"
  shows "requests (trace (snd (run_script lib w st))) =
           requests (trace st)
           @ [Generate (Some (text_input w))
                \<lparr>model_name = ''gemini-1.5-flash'', system_instruction = None\<rparr>
                (build_content prompt (file_uploader w))]
       \<and> (\<forall>d s m s'. get_working_model lib d s = (Some m, s') \<longrightarrow>
             system_instruction m = Some d)"
proof -
  let ?s = "render_doc_messages
         (emit (StTitle title_text)
           (emit (StInfo ''Upload books and solve equations.'')
             (emit (StWarning no_vault_text) (emit (StHeader header_text) st))))"
  have sec: "secrets ?s ''gemini'' = None" using assms(1) by simp
  have run: "run_script lib w st =
     (None, ask_model lib (Some \<lparr>model_name = ''gemini-1.5-flash'', system_instruction = None\<rparr>)
              prompt (file_uploader w) (configure (text_input w) (show_prompt prompt ?s)))"
    unfolding run_script_without_vault [OF assms(1-4)]
    using sec assms(5,6) by (rule submit_prompt_manual)
  have a: "requests (trace (snd (run_script lib w st))) =
           requests (trace st)
           @ [Generate (Some (text_input w))
                \<lparr>model_name = ''gemini-1.5-flash'', system_instruction = None\<rparr>
                (build_content prompt (file_uploader w))]"
    unfolding run by (simp add: ask_model_events)
  have b: "system_instruction m = Some d" if "get_working_model lib d s = (Some m, s')"
    for d s m s'
    using get_working_model_instruction [OF that] by (simp add: pooled_model_def)
  from a b show ?thesis by blast
qed

theorem manual_handle_has_no_instruction_witness:
  "secrets no_vault_world ''gemini'' = None
   \<and> radio (entropy_question ''my-key'') = DocumentResearch
   \<and> chat_input (entropy_question ''my-key'') = Some ''What is entropy?''
   \<and> text_input (entropy_question ''my-key'') = ''my-key''
   \<and> construct_error example_lib (Some ''my-key'') ''gemini-1.5-flash'' None = None
   \<and> requests (trace (snd (run_script example_lib (entropy_question ''my-key'') no_vault_world)))
       = [Generate (Some ''my-key'')
            \<lparr>model_name = ''gemini-1.5-flash'', system_instruction = None\<rparr>
            [Text ''What is entropy?'']]
   \<and> fst (get_working_model example_lib research_directive (example_world [''good-key'']))
       = Some (pooled_model research_directive)
   \<and> system_instruction (pooled_model research_directive) = Some research_directive"
proof -
  let ?w = "entropy_question ''my-key''"
  have h1: "secrets no_vault_world ''gemini'' = None" by (simp add: no_vault_world_def)
  have h2: "radio ?w = DocumentResearch" by (simp add: entropy_question_def)
  have h3: "chat_input ?w = Some ''What is entropy?''" by (simp add: entropy_question_def)
  have h4: "''What is entropy?'' \<noteq> []" by simp
  have t: "text_input ?w = ''my-key''" by (simp add: entropy_question_def)
  have h5: "text_input ?w \<noteq> []" by (simp add: t)
  have c: "construct_error example_lib (Some ''my-key'') ''gemini-1.5-flash'' None = None"
    by (simp add: example_lib_def)
  have h6: "construct_error example_lib (Some (text_input ?w)) ''gemini-1.5-flash'' None = None"
    by (simp add: t c)
  note main = manual_handle_has_no_instruction [OF h1 h2 h3 h4 h5 h6]
  have f: "file_uploader ?w = []" "trace no_vault_world = []"
    by (simp_all add: entropy_question_def no_vault_world_def)
  from main have r: "requests (trace (snd (run_script example_lib ?w no_vault_world)))
       = [Generate (Some ''my-key'')
            \<lparr>model_name = ''gemini-1.5-flash'', system_instruction = None\<rparr>
            [Text ''What is entropy?'']]"
    by (simp add: t f build_content_def)
  have g: "get_working_model example_lib research_directive (example_world [''good-key'']) =
      (Some (pooled_model research_directive),
       snd (get_working_model example_lib research_directive (example_world [''good-key''])))"
    by (simp add: get_working_model_def example_world_def example_lib_def GenerativeModel_def
        configure_def emit_def pooled_model_def)
  from main g have s: "system_instruction (pooled_model research_directive) = Some research_directive"
    by blast
  from g have g': "fst (get_working_model example_lib research_directive (example_world [''good-key'']))
       = Some (pooled_model research_directive)"
    by (metis fst_conv)
  from h1 h2 h3 t c r g' s show ?thesis by blast
qed

subsection \<open>Exceptions that leave the script\<close>

text \<open>
  Claim C9 says that no failure escapes a run. Two runs show otherwise. Without a vault,
  a manual key whose construction raises ends the run with that exception: lines 86 and
  87 stand outside any \<^verbatim>\<open>try\<close>, unlike the same construction in \<open>get_working_model\<close>.
  And with a vault section that has no key list, the sidebar ends every run with
  \<^verbatim>\<open>KeyError\<close>: line 49 tests for the section only, where line 22 tests for the key
  list too.
\<close>

theorem uncaught_exceptions:
  "run_script example_lib (entropy_question ''bad-key'') no_vault_world =
     (Some (ApiError ''invalid key''),
      \<lparr>secrets = Map.empty, api_key = Some ''bad-key'',
       doc_messages = [\<lparr>role = ''user'', content = ''What is entropy?''\<rparr>],
       debate_history = [],
       trace = [StHeader header_text, StWarning no_vault_text,
                StInfo ''Upload books and solve equations.'', StTitle title_text,
                StChatMessage ''user'', StMarkdown ''What is entropy?'',
                StChatMessage ''assistant'', StSpinner ''Analyzing documents...'',
                Configure ''bad-key'']\<rparr>)
   \<and> run_script example_lib (entropy_question []) keyless_vault_world =
     (Some (KeyError ''keys''), keyless_vault_world\<lparr>trace := [StHeader header_text]\<rparr>)"
  by (simp add: script_eval entropy_question_def no_vault_world_def keyless_vault_world_def
      example_lib_def)

subsection \<open>Two further runs\<close>

text \<open>A question with a working pool and no attachment: the transcript gains the user
  entry and the assistant entry.\<close>

lemma document_question_answered:
  "fst (run_script example_lib (entropy_question []) (example_world [''bad-key'', ''good-key'']))
     = None
   \<and> doc_messages (snd (run_script example_lib (entropy_question [])
        (example_world [''bad-key'', ''good-key''])))
     = [\<lparr>role = ''user'', content = ''What is entropy?''\<rparr>,
        \<lparr>role = ''assistant'', content = ''text''\<rparr>]"
  by (simp add: script_eval entropy_question_def example_world_def example_lib_def)

text \<open>A question with an exhausted pool: the exhaustion is reported, nothing is asked, and
  the text of the manual key field plays no part, since the field exists only without a
  vault section.\<close>

lemma exhausted_question:
  "run_script example_lib (entropy_question ''my-key'') (example_world [''bad-key''])
     = (None, (example_world [''bad-key''])
         \<lparr>api_key := Some ''bad-key'',
          doc_messages := [\<lparr>role = ''user'', content = ''What is entropy?''\<rparr>],
          trace := [StHeader header_text, StSuccess (vault_active_text 1),
                StCaption ''Auto-Rotation Enabled'',
                StInfo ''Upload books and solve equations.'', StTitle title_text,
                StChatMessage ''user'', StMarkdown ''What is entropy?'',
                StChatMessage ''assistant'', StSpinner ''Analyzing documents...'',
                Configure ''bad-key'', StError exhausted_message]\<rparr>)"
  by (simp add: script_eval entropy_question_def example_world_def example_lib_def)

end
